theory Spec2Isabelle
  imports Complex_Main
begin

section \<open>The order-recommendation view (OrderRecommendations.tsx)\<close>

text \<open>
  JavaScript numbers are modelled as unbounded integers: item ids, stock levels and
  quantities are integers (the handlers pass the results of \<open>parseInt\<close>, of \<open>+ 1\<close>/\<open>- 1\<close>
  and of \<open>Math.max\<close>), prices and costs are won amounts. The values \<open>NaN\<close> and
  \<open>Infinity\<close> only arise as results of \<open>parseInt\<close> and are modelled there.

  Two field names are suffixed because Isabelle does not allow them twice: the \<open>id\<close> fields
  (\<open>id\<close> is the identity function of HOL) and the \<open>total_cost\<close> field of
  \<open>OrderRecommendation\<close>.
\<close>

subsection \<open>Data\<close>

record OrderItem =
  item_id :: int
  product_name :: string
  current_stock :: int
  safe_stock :: int
  order_quantity :: int
  unit_price :: int
  total_cost :: int
  reason :: string
  priority :: string

record OrderRecommendation =
  rec_id :: int
  recommendation_date :: string
  total_items :: int
  rec_total_cost :: int
  created_at :: string
  status :: string

text \<open>
  The requests the component sends and the notices it shows (\<open>alert\<close>, \<open>toast\<close>) are its
  effects; the model records them in two logs beside the React state.
\<close>

datatype request =
    GetPending
  | GetItems int
  | PutQuantity int int int
  | PostExecute int

datatype notice =
    LoadOrdersFailed
  | QuantitiesSaved
  | SaveFailed
  | SaveChangesFirst
  | ExecuteSucceeded int
  | ExecuteFailed

text \<open>
  What a \<open>fetch\<close> followed by \<open>response.json()\<close> can give: the promise rejects
  (\<open>Rejected\<close>: network failure, or a body that is not JSON), the server answers with an
  error status and a body without the expected field (\<open>NotOk\<close>), or it answers with the
  JSON object (\<open>Payload\<close>). For the two list endpoints the payload is the list field of the
  object, \<open>None\<close> when the field is missing.
\<close>

datatype 'a response = Rejected | NotOk | Payload 'a

record component =
  orders :: "OrderRecommendation list"
  selectedOrderId :: "int option"
  orderItems :: "OrderItem list"
  loading :: bool
  isItemsLoading :: bool
  isGenerating :: bool
  expandedItems :: "int set"
  hasChanges :: bool
  showExecuteModal :: bool
  sent :: "request list"
  notices :: "notice list"

subsection \<open>Quantity edits\<close>

text \<open>Lines 74-85. A negative quantity returns before any state is set.\<close>

definition updateQuantity :: "int \<Rightarrow> int \<Rightarrow> component \<Rightarrow> component" where
  "updateQuantity itemId newQuantity s =
     (if newQuantity < 0 then s
      else s\<lparr>orderItems :=
                 map (\<lambda>item.
                        if item_id item = itemId
                        then item\<lparr>order_quantity := newQuantity,
                                  total_cost := unit_price item * newQuantity\<rparr>
                        else item)
                     (orderItems s),
               hasChanges := True\<rparr>)"

text \<open>
  A JavaScript string is a sequence of UTF-16 code units; \<open>code_units\<close> gives the code
  units of a text written in ASCII.
\<close>

type_synonym js_string = "nat list"

definition code_units :: "string \<Rightarrow> js_string" where
  "code_units cs = map of_char cs"

text \<open>
  The numbers \<open>parseInt\<close> can return: \<open>NaN\<close>, an integer that is a double, or an infinity.
\<close>

datatype js_number = NaN | Finite int | PlusInfinity | MinusInfinity

text \<open>
  The white space \<open>parseInt\<close> skips: the WhiteSpace and LineTerminator code points of
  ECMAScript (TAB, LF, VT, FF, CR, SP, NBSP, U+1680, U+2000 to U+200A, LS, PS, U+202F, U+205F,
  U+3000, U+FEFF).
\<close>

definition is_white_space :: "nat \<Rightarrow> bool" where
  "is_white_space u \<longleftrightarrow>
     u = 9 \<or> u = 10 \<or> u = 11 \<or> u = 12 \<or> u = 13 \<or> u = 32 \<or> u = 160 \<or> u = 5760
     \<or> (8192 \<le> u \<and> u \<le> 8202) \<or> u = 8232 \<or> u = 8233 \<or> u = 8239 \<or> u = 8287
     \<or> u = 12288 \<or> u = 65279"

text \<open>The value of a code unit as a digit of the radix: \<open>0-9\<close>, \<open>a-z\<close>, \<open>A-Z\<close>.\<close>

definition digit_value :: "nat \<Rightarrow> nat \<Rightarrow> nat option" where
  "digit_value radix u =
     (let d = (if 48 \<le> u \<and> u \<le> 57 then Some (u - 48)
               else if 97 \<le> u \<and> u \<le> 122 then Some (u - 87)
               else if 65 \<le> u \<and> u \<le> 90 then Some (u - 55)
               else None)
      in case d of None \<Rightarrow> None | Some v \<Rightarrow> if v < radix then Some v else None)"

fun digits_value :: "nat \<Rightarrow> js_string \<Rightarrow> nat \<Rightarrow> nat" where
  "digits_value radix [] acc = acc"
| "digits_value radix (u # us) acc =
     (case digit_value radix u of
        None \<Rightarrow> acc
      | Some d \<Rightarrow> digits_value radix us (acc * radix + d))"

definition parse_digits :: "nat \<Rightarrow> js_string \<Rightarrow> nat option" where
  "parse_digits radix z =
     (case z of
        [] \<Rightarrow> None
      | u # us \<Rightarrow> (case digit_value radix u of
                     None \<Rightarrow> None
                   | Some d \<Rightarrow> Some (digits_value radix z 0)))"

text \<open>
  The Number value of a non-negative integer: the nearest double, ties to the even
  significand. Below \<open>2 ^ 53\<close> every integer is a double. Above, the integer keeps its
  leading 53 bits, rounded; a result of \<open>2 ^ 1024\<close> or more is \<open>Infinity\<close> (\<open>None\<close>).
\<close>

fun bit_length :: "nat \<Rightarrow> nat" where
  "bit_length n = (if n = 0 then 0 else Suc (bit_length (n div 2)))"

declare bit_length.simps [simp del]

definition round_to_double :: "nat \<Rightarrow> nat option" where
  "round_to_double n =
     (if n < 2 ^ 53 then Some n
      else (let e = bit_length n - 53;
                q = n div 2 ^ e;
                r = n mod 2 ^ e;
                half = 2 ^ (e - 1);
                q' = (if half < r \<or> (r = half \<and> odd q) then q + 1 else q);
                v = q' * 2 ^ e
            in if 2 ^ 1024 \<le> v then None else Some v))"

text \<open>
  \<open>parseInt(string)\<close> without a radix: leading white space is skipped, one sign is read,
  a \<open>0x\<close>/\<open>0X\<close> prefix selects radix 16 (radix 10 otherwise), and the longest prefix of
  digits is read; no digit at all gives \<open>NaN\<close>. The result is the Number value of the
  digits' integer, with the sign. (For more than 20 significant digits ECMAScript lets an
  implementation round the digits first; the model rounds the exact integer.)
\<close>

definition parseInt :: "js_string \<Rightarrow> js_number" where
  "parseInt str =
     (let s = dropWhile is_white_space str;
          negative = (s \<noteq> [] \<and> hd s = 45);
          s1 = (if s \<noteq> [] \<and> (hd s = 43 \<or> hd s = 45) then tl s else s);
          hex = (take 2 s1 = [48, 120] \<or> take 2 s1 = [48, 88]);
          z = (if hex then drop 2 s1 else s1);
          radix = (if hex then 16 else 10 :: nat)
      in case parse_digits radix z of
           None \<Rightarrow> NaN
         | Some n \<Rightarrow>
             (case round_to_double n of
                None \<Rightarrow> if negative then MinusInfinity else PlusInfinity
              | Some v \<Rightarrow> Finite (if negative then - int v else int v)))"

text \<open>
  \<open>x || 0\<close> on a number: the falsy numbers are \<open>NaN\<close> and zero, every other number is kept.
\<close>

definition or_zero :: "js_number \<Rightarrow> js_number" where
  "or_zero x = (case x of NaN \<Rightarrow> Finite 0 | Finite n \<Rightarrow> if n = 0 then Finite 0 else Finite n
                | PlusInfinity \<Rightarrow> PlusInfinity | MinusInfinity \<Rightarrow> MinusInfinity)"

text \<open>
  The call \<open>updateQuantity(item.id, x)\<close> with a JavaScript number \<open>x\<close>. On an integer it is
  \<open>updateQuantity\<close>. \<open>-Infinity\<close> is less than 0, so the guard of line 75 returns and the
  state stays. \<open>NaN\<close> and \<open>Infinity\<close> pass the guard and would be stored in the item, which
  holds integers in this model: there the call has no modelled result (\<open>None\<close>).
\<close>

definition updateQuantity_number :: "int \<Rightarrow> js_number \<Rightarrow> component \<Rightarrow> component option" where
  "updateQuantity_number itemId x s =
     (case x of
        Finite n \<Rightarrow> Some (updateQuantity itemId n s)
      | MinusInfinity \<Rightarrow> Some s
      | NaN \<Rightarrow> None
      | PlusInfinity \<Rightarrow> None)"

text \<open>
  The three controls of a table row (lines 435-453). Each closes over the \<open>item\<close> of the row
  it was rendered for. \<open>onChange\<close> receives the text of the input field and calls
  \<open>updateQuantity(item.id, parseInt(e.target.value) || 0)\<close>.
\<close>

definition onMinusClick :: "OrderItem \<Rightarrow> component \<Rightarrow> component" where
  "onMinusClick item s = updateQuantity (item_id item) (max 0 (order_quantity item - 1)) s"

definition onQuantityChange :: "OrderItem \<Rightarrow> js_string \<Rightarrow> component \<Rightarrow> component option" where
  "onQuantityChange item target_value s =
     updateQuantity_number (item_id item) (or_zero (parseInt target_value)) s"

definition onPlusClick :: "OrderItem \<Rightarrow> component \<Rightarrow> component" where
  "onPlusClick item s = updateQuantity (item_id item) (order_quantity item + 1) s"

subsection \<open>Loading, saving and executing\<close>

text \<open>
  Each asynchronous handler is modelled from its start to its completion, with the
  server's answers as parameters; the state is the one after the handler's last
  \<open>set...\<close> call. \<open>data.orders || []\<close> and \<open>data.items || []\<close> replace a missing
  field by the empty list.
\<close>

definition or_empty :: "'a list option \<Rightarrow> 'a list" where
  "or_empty xs = (case xs of None \<Rightarrow> [] | Some ys \<Rightarrow> ys)"

text \<open>Lines 41-54. An error status throws, and the \<open>catch\<close> shows a toast.\<close>

definition loadOrders ::
  "OrderRecommendation list option response \<Rightarrow> component \<Rightarrow> component" where
  "loadOrders answer s =
     (let s1 = s\<lparr>loading := True, sent := sent s @ [GetPending]\<rparr>;
          s2 = (case answer of
                  Payload data \<Rightarrow> s1\<lparr>orders := or_empty data\<rparr>
                | _ \<Rightarrow> s1\<lparr>notices := notices s1 @ [LoadOrdersFailed]\<rparr>)
      in s2\<lparr>loading := False\<rparr>)"

text \<open>
  Lines 57-71. \<open>hasChanges\<close> is reset before the request is sent. The status of the answer
  is not inspected: an error answer has no \<open>items\<close> field and gives the empty list, as a
  rejected request does in the \<open>catch\<close>.
\<close>

definition loadOrderItems ::
  "int \<Rightarrow> OrderItem list option response \<Rightarrow> component \<Rightarrow> component" where
  "loadOrderItems orderId answer s =
     (let s1 = s\<lparr>isItemsLoading := True, selectedOrderId := Some orderId,
                   hasChanges := False, sent := sent s @ [GetItems orderId]\<rparr>;
          s2 = (case answer of
                  Payload data \<Rightarrow> s1\<lparr>orderItems := or_empty data\<rparr>
                | _ \<Rightarrow> s1\<lparr>orderItems := []\<rparr>)
      in s2\<lparr>isItemsLoading := False\<rparr>)"

text \<open>
  The loop of lines 92-96: one \<open>PUT\<close> per item, in order. \<open>resolves k\<close> tells whether the
  \<open>fetch\<close> of the \<open>k\<close>-th request resolves; the first one that rejects ends the loop. The
  result is the requests sent and whether the loop ran to its end.
\<close>

fun put_each :: "int \<Rightarrow> (nat \<Rightarrow> bool) \<Rightarrow> nat \<Rightarrow> OrderItem list \<Rightarrow> request list \<times> bool" where
  "put_each orderId resolves k [] = ([], True)"
| "put_each orderId resolves k (item # rest) =
     (if resolves k
      then (case put_each orderId resolves (Suc k) rest of
              (reqs, done) \<Rightarrow> (PutQuantity orderId (item_id item) (order_quantity item) # reqs, done))
      else ([PutQuantity orderId (item_id item) (order_quantity item)], False))"

text \<open>Lines 88-106. \<open>!selectedOrderId\<close> holds for \<open>null\<close> and for the number 0.\<close>

definition saveQuantityChanges ::
  "(nat \<Rightarrow> bool) \<Rightarrow> OrderRecommendation list option response
     \<Rightarrow> OrderItem list option response \<Rightarrow> component \<Rightarrow> component" where
  "saveQuantityChanges resolves orders_answer items_answer s =
     (case selectedOrderId s of
        None \<Rightarrow> s
      | Some orderId \<Rightarrow>
          if orderId = 0 then s
          else (case put_each orderId resolves 0 (orderItems s) of
                  (reqs, done) \<Rightarrow>
                    if done
                    then loadOrderItems orderId items_answer
                           (loadOrders orders_answer
                              (s\<lparr>sent := sent s @ reqs,
                                 notices := notices s @ [QuantitiesSaved],
                                 hasChanges := False\<rparr>))
                    else s\<lparr>sent := sent s @ reqs, notices := notices s @ [SaveFailed]\<rparr>))"

text \<open>Lines 129-147. Only the id of the selected recommendation is sent.\<close>

definition executeOrder ::
  "unit response \<Rightarrow> OrderRecommendation list option response \<Rightarrow> component \<Rightarrow> component" where
  "executeOrder answer orders_answer s =
     (case selectedOrderId s of
        None \<Rightarrow> s
      | Some orderId \<Rightarrow>
          if orderId = 0 then s
          else (let s1 = s\<lparr>sent := sent s @ [PostExecute orderId]\<rparr>
                in case answer of
                     Payload data \<Rightarrow>
                       loadOrders orders_answer
                         (s1\<lparr>notices := notices s1 @ [ExecuteSucceeded orderId],
                             showExecuteModal := False\<rparr>)
                   | _ \<Rightarrow> s1\<lparr>notices := notices s1 @ [ExecuteFailed]\<rparr>))"

text \<open>Lines 150-156.\<close>

definition handleExecuteClick :: "component \<Rightarrow> component" where
  "handleExecuteClick s =
     (if hasChanges s then s\<lparr>notices := notices s @ [SaveChangesFirst]\<rparr>
      else s\<lparr>showExecuteModal := True\<rparr>)"

subsection \<open>Derived values of a render\<close>

text \<open>
  Line 185: \<open>orderItems.reduce((sum, item) => sum + item.total_cost, 0)\<close>, a left fold.
  The footer of the table and the confirmation dialog show it beside \<open>orderItems.length\<close>
  (lines 468-470 and 520-527).
\<close>

definition totalCost :: "component \<Rightarrow> int" where
  "totalCost s = foldl (\<lambda>sum item. sum + total_cost item) 0 (orderItems s)"

definition shown_item_count :: "component \<Rightarrow> int" where
  "shown_item_count s = int (length (orderItems s))"

text \<open>
  Line 184, and the conditions under which the controls are rendered. While \<open>loading\<close>
  holds the component returns the spinner alone (lines 175-182). Otherwise the execute button
  (lines 315, 325-332, with \<open>disabled={hasChanges}\<close>) and the save button (line 317) are
  rendered for a selected order, the rows of the table with their quantity controls when
  there are orders and loaded items (lines 267, 337-347), and the confirmation dialog, whose
  button calls \<open>executeOrder\<close>, under the condition of line 483.
\<close>

definition selectedOrder :: "component \<Rightarrow> OrderRecommendation option" where
  "selectedOrder s = find (\<lambda>order. Some (rec_id order) = selectedOrderId s) (orders s)"

definition execute_button_shown :: "component \<Rightarrow> bool" where
  "execute_button_shown s \<longleftrightarrow> \<not> loading s \<and> orders s \<noteq> [] \<and> selectedOrder s \<noteq> None"

definition execute_button_disabled :: "component \<Rightarrow> bool" where
  "execute_button_disabled s \<longleftrightarrow> hasChanges s"

definition save_button_shown :: "component \<Rightarrow> bool" where
  "save_button_shown s \<longleftrightarrow>
     \<not> loading s \<and> orders s \<noteq> [] \<and> selectedOrder s \<noteq> None \<and> hasChanges s"

definition quantity_controls_shown :: "component \<Rightarrow> bool" where
  "quantity_controls_shown s \<longleftrightarrow>
     \<not> loading s \<and> orders s \<noteq> [] \<and> \<not> isItemsLoading s \<and> orderItems s \<noteq> []"

definition confirmation_shown :: "component \<Rightarrow> bool" where
  "confirmation_shown s \<longleftrightarrow> \<not> loading s \<and> showExecuteModal s \<and> selectedOrder s \<noteq> None"

text \<open>Line 420: \<open>Math.max(0, item.safe_stock - item.current_stock)\<close>.\<close>

definition shortfall :: "OrderItem \<Rightarrow> int" where
  "shortfall item = max 0 (safe_stock item - current_stock item)"

text \<open>The invariant of an item as the data model words it: no stale total.\<close>

definition cost_is_current :: "OrderItem \<Rightarrow> bool" where
  "cost_is_current item \<longleftrightarrow> total_cost item = order_quantity item * unit_price item"

section \<open>The decision pipeline and the lifecycle manager\<close>

text \<open>
  The pipeline stages and the lifecycle manager run in the backend
  (\<open>convenience-store-backend\<close>), which the view only reaches through its requests. Each
  definition of this section is modelled from the specification and says so.
\<close>

text \<open>
  Modelled from the spec: the flag of the Inventory Assessment Stage (backend, section 4.2):
  a product is flagged when its shortfall is greater than 0. The shortfall is the one the
  view computes from an item's two stock fields.
\<close>

definition flagged :: "OrderItem \<Rightarrow> bool" where
  "flagged item \<longleftrightarrow> 0 < shortfall item"

text \<open>
  Modelled from the spec: the priority tiers of the Decision Stage (backend, section 4.3):
  high when \<open>current_stock = 0\<close>; medium when the shortfall is at least 50 percent of
  \<open>safe_stock\<close>; low otherwise. The three cases are tried in this order.
\<close>

datatype priority_tier = low | medium | high

text \<open>
  Modelled from the spec: the priority assignment (section 4.3), on the current and the safe
  stock of a product; the shortfall is \<open>max 0 (safe - current)\<close> (section 4.2).
\<close>

definition assign_priority :: "int \<Rightarrow> int \<Rightarrow> priority_tier" where
  "assign_priority current safe =
     (if current = 0 then high
      else if (50 / 100) * (of_int safe :: rat) \<le> of_int (max 0 (safe - current)) then medium
      else low)"

text \<open>
  Modelled from the spec: the error taxonomy of section 7 (the Lifecycle Manager and the
  Scheduler are backend code).
\<close>

datatype lifecycle_error =
    InvalidState
  | InvalidQuantity
  | EmptyDecision
  | AlreadyRunning
  | TransientStorageFailure
  | ReferentialFailure

text \<open>Modelled from the spec: the states of a Recommendation (sections 3 and 4.5).\<close>

datatype lifecycle_status = pending | executed | cancelled

text \<open>
  Modelled from the spec: the entities of section 3 that execution touches. Field names
  carry a prefix where the view's records use the same name. A product and a
  recommendation are stored under their id, so the id is the key of the map and not a field;
  time is a counter.
\<close>

record Product =
  p_name :: string
  p_category :: string
  p_current_stock :: int
  p_safe_stock :: int
  p_unit_price :: int

record RecommendationItem =
  ri_product_id :: nat
  ri_current_stock_snapshot :: int
  ri_safe_stock_snapshot :: int
  ri_order_quantity :: int
  ri_unit_price_snapshot :: int
  ri_total_cost :: int
  ri_priority :: priority_tier
  ri_reason :: string

record Recommendation =
  r_recommendation_date :: nat
  r_created_at :: nat
  r_status :: lifecycle_status
  r_executed_at :: "nat option"
  r_items :: "RecommendationItem list"
  r_total_items :: nat
  r_total_cost :: int

record store =
  products :: "nat \<rightharpoonup> Product"
  recommendations :: "nat \<rightharpoonup> Recommendation"

text \<open>
  Modelled from the spec: one item's stock increment (section 4.5, "increments the
  corresponding Product's current_stock by order_quantity").
\<close>

definition receive_item :: "(nat \<rightharpoonup> Product) \<Rightarrow> RecommendationItem \<Rightarrow> (nat \<rightharpoonup> Product)" where
  "receive_item ledger item =
     (case ledger (ri_product_id item) of
        None \<Rightarrow> ledger
      | Some p \<Rightarrow>
          ledger(ri_product_id item \<mapsto>
                   p\<lparr>p_current_stock := p_current_stock p + ri_order_quantity item\<rparr>))"

text \<open>
  Modelled from the spec: \<open>execute(recommendation_id)\<close> (section 4.5). Legal only while
  pending, otherwise \<open>InvalidState\<close>; if the product of any item no longer exists the whole
  execution fails with \<open>ReferentialFailure\<close>; otherwise every item's product receives the
  item's quantity, the status becomes executed and \<open>executed_at\<close> is set. The spec names no
  error for an id that no recommendation has; the model answers \<open>InvalidState\<close> there.
\<close>

definition execute :: "nat \<Rightarrow> nat \<Rightarrow> store \<Rightarrow> lifecycle_error + store" where
  "execute now recommendation_id st =
     (case recommendations st recommendation_id of
        None \<Rightarrow> Inl InvalidState
      | Some r \<Rightarrow>
          if r_status r \<noteq> pending then Inl InvalidState
          else if list_ex (\<lambda>item. products st (ri_product_id item) = None) (r_items r)
          then Inl ReferentialFailure
          else Inr (st\<lparr>products := foldl receive_item (products st) (r_items r),
                        recommendations :=
                          (recommendations st)(recommendation_id \<mapsto>
                             r\<lparr>r_status := executed, r_executed_at := Some now\<rparr>)\<rparr>))"

text \<open>
  Modelled from the spec: a failed call leaves the state exactly as before the attempt
  (section 7); a successful one replaces it.
\<close>

definition after_call :: "(store \<Rightarrow> lifecycle_error + store) \<Rightarrow> store \<Rightarrow> store" where
  "after_call call st = (case call st of Inl e \<Rightarrow> st | Inr st' \<Rightarrow> st')"

text \<open>
  Modelled from the spec: "the item quantities" of one product (section 8), the sum of
  \<open>order_quantity\<close> over the items that name it.
\<close>

definition ordered_of :: "nat \<Rightarrow> RecommendationItem list \<Rightarrow> int" where
  "ordered_of pid its = sum_list (map ri_order_quantity (filter (\<lambda>item. ri_product_id item = pid) its))"

text \<open>
  Modelled from the spec: the day-over-day sales delta of the Analysis Stage (backend,
  section 4.1): the percent change of the most recent day against the prior day, and 0 when
  the prior day has zero sales. A division raises on a zero divisor, so it is a partial
  operation here. The sales of a day are the sum over that day's records of what one record
  contributes; the spec does not fix that contribution (amount or quantity), so it is the
  parameter \<open>contribution\<close>. The most recent day is the last day of the date window.
\<close>

record SalesRecord =
  sr_product_id :: nat
  sr_quantity_sold :: nat
  sr_sale_price :: rat
  sr_sale_date :: int

text \<open>
  Modelled from the spec: the division that section 4.1 guards ("to avoid
  division-by-zero"); a zero divisor is an error, not a value.
\<close>

datatype arithmetic_error = ZeroDivisionError

definition divide :: "rat \<Rightarrow> rat \<Rightarrow> arithmetic_error + rat" where
  "divide a b = (if b = 0 then Inl ZeroDivisionError else Inr (a / b))"

text \<open>
  Modelled from the spec: the percent change of the most recent day against the prior day,
  0 if the prior day has zero sales (section 4.1).
\<close>

definition percent_change :: "rat \<Rightarrow> rat \<Rightarrow> arithmetic_error + rat" where
  "percent_change recent prior =
     (if prior = 0 then Inr 0
      else case divide (recent - prior) prior of
             Inl e \<Rightarrow> Inl e
           | Inr q \<Rightarrow> Inr (q * 100))"

text \<open>
  Modelled from the spec: the sales of one day in the Sales History (sections 3 and 4.1).
\<close>

definition day_sales :: "(SalesRecord \<Rightarrow> rat) \<Rightarrow> SalesRecord list \<Rightarrow> int \<Rightarrow> rat" where
  "day_sales contribution history day =
     sum_list (map contribution (filter (\<lambda>r. sr_sale_date r = day) history))"

text \<open>
  Modelled from the spec: the day-over-day sales delta as a function of the date window and
  the sales history (section 4.1); a window is its first and its last day.
\<close>

definition day_over_day_delta ::
  "(SalesRecord \<Rightarrow> rat) \<Rightarrow> int \<times> int \<Rightarrow> SalesRecord list \<Rightarrow> arithmetic_error + rat" where
  "day_over_day_delta contribution window history =
     (case window of
        (first_day, last_day) \<Rightarrow>
          percent_change (day_sales contribution history last_day)
                         (day_sales contribution history (last_day - 1)))"

section \<open>Example data\<close>

text \<open>
  The two products of the specification's end-to-end scenario as items of recommendation 1,
  a product above its threshold, and the view showing recommendation 1.
\<close>

definition item_a :: OrderItem where
  "item_a = \<lparr>item_id = 1, product_name = ''A'', current_stock = 0, safe_stock = 20,
              order_quantity = 20, unit_price = 1000, total_cost = 20000,
              reason = ''stockout'', priority = ''high''\<rparr>"

definition item_b :: OrderItem where
  "item_b = \<lparr>item_id = 2, product_name = ''B'', current_stock = 15, safe_stock = 20,
              order_quantity = 5, unit_price = 500, total_cost = 2500,
              reason = ''below threshold'', priority = ''low''\<rparr>"

definition item_c :: OrderItem where
  "item_c = \<lparr>item_id = 3, product_name = ''C'', current_stock = 30, safe_stock = 20,
              order_quantity = 0, unit_price = 700, total_cost = 0,
              reason = [], priority = ''low''\<rparr>"

definition order_1 :: OrderRecommendation where
  "order_1 = \<lparr>rec_id = 1, recommendation_date = ''2025-01-10'', total_items = 2,
               rec_total_cost = 22500, created_at = ''2025-01-10 06:00:00'',
               status = ''pending''\<rparr>"

definition view_1 :: component where
  "view_1 = \<lparr>orders = [order_1], selectedOrderId = Some 1, orderItems = [item_a, item_b],
              loading = False, isItemsLoading = False, isGenerating = False,
              expandedItems = {}, hasChanges = False, showExecuteModal = False,
              sent = [], notices = []\<rparr>"

text \<open>
  The same scenario in the backend's store: products 1 (A) and 2 (B), and recommendation 1,
  pending, ordering 20 of A and 5 of B. Two days of sales of product 1, with the revenue of a
  record as its contribution to a day's sales.
\<close>

definition product_a :: Product where
  "product_a = \<lparr>p_name = ''A'', p_category = ''drinks'', p_current_stock = 0,
                 p_safe_stock = 20, p_unit_price = 1000\<rparr>"

definition product_b :: Product where
  "product_b = \<lparr>p_name = ''B'', p_category = ''snacks'', p_current_stock = 15,
                 p_safe_stock = 20, p_unit_price = 500\<rparr>"

definition recommendation_1 :: Recommendation where
  "recommendation_1 =
     \<lparr>r_recommendation_date = 10, r_created_at = 10, r_status = pending, r_executed_at = None,
      r_items =
        [\<lparr>ri_product_id = 1, ri_current_stock_snapshot = 0, ri_safe_stock_snapshot = 20,
          ri_order_quantity = 20, ri_unit_price_snapshot = 1000, ri_total_cost = 20000,
          ri_priority = high, ri_reason = ''stockout''\<rparr>,
         \<lparr>ri_product_id = 2, ri_current_stock_snapshot = 15, ri_safe_stock_snapshot = 20,
          ri_order_quantity = 5, ri_unit_price_snapshot = 500, ri_total_cost = 2500,
          ri_priority = low, ri_reason = ''below threshold''\<rparr>],
      r_total_items = 2, r_total_cost = 22500\<rparr>"

definition store_1 :: store where
  "store_1 = \<lparr>products = Map.empty(1 \<mapsto> product_a, 2 \<mapsto> product_b),
               recommendations = Map.empty(1 \<mapsto> recommendation_1)\<rparr>"

definition revenue :: "SalesRecord \<Rightarrow> rat" where
  "revenue r = of_nat (sr_quantity_sold r) * sr_sale_price r"

definition history_1 :: "SalesRecord list" where
  "history_1 =
     [\<lparr>sr_product_id = 1, sr_quantity_sold = 2, sr_sale_price = 50, sr_sale_date = 10\<rparr>,
      \<lparr>sr_product_id = 1, sr_quantity_sold = 3, sr_sale_price = 50, sr_sale_date = 11\<rparr>]"

section \<open>Properties\<close>

subsection \<open>Quantity edits\<close>

lemma updateQuantity_length:
  "length (orderItems (updateQuantity itemId newQuantity s)) = length (orderItems s)"
  by (simp add: updateQuantity_def)

lemma updateQuantity_nth:
  assumes "0 \<le> newQuantity" and "i < length (orderItems s)"
  shows "orderItems (updateQuantity itemId newQuantity s) ! i =
           (if item_id (orderItems s ! i) = itemId
            then (orderItems s ! i)\<lparr>order_quantity := newQuantity,
                                     total_cost := unit_price (orderItems s ! i) * newQuantity\<rparr>
            else orderItems s ! i)"
  using assms by (simp add: updateQuantity_def)

text \<open>
  C1. After a quantity edit with a non-negative quantity, every item the edit targets has
  \<open>order_quantity = newQuantity\<close> and \<open>total_cost = unit_price * newQuantity\<close>, with its
  unit price unchanged, so its total is the product of its quantity and its unit price; and
  an item whose total was current before the edit has a current total after it.
\<close>

theorem updateQuantity_total_cost:
  assumes "0 \<le> newQuantity" and "i < length (orderItems s)"
  shows "(item_id (orderItems s ! i) = itemId \<longrightarrow>
            order_quantity (orderItems (updateQuantity itemId newQuantity s) ! i) = newQuantity
          \<and> total_cost (orderItems (updateQuantity itemId newQuantity s) ! i)
              = unit_price (orderItems s ! i) * newQuantity
          \<and> unit_price (orderItems (updateQuantity itemId newQuantity s) ! i)
              = unit_price (orderItems s ! i)
          \<and> cost_is_current (orderItems (updateQuantity itemId newQuantity s) ! i))
       \<and> (cost_is_current (orderItems s ! i) \<longrightarrow>
            cost_is_current (orderItems (updateQuantity itemId newQuantity s) ! i))"
  using assms by (simp add: updateQuantity_nth cost_is_current_def)

theorem updateQuantity_total_cost_witness:
  "(0::int) \<le> 25 \<and> (0::nat) < length (orderItems view_1)
   \<and> item_id (orderItems view_1 ! 0) = 1
   \<and> cost_is_current (orderItems view_1 ! 0)
   \<and> order_quantity (orderItems (updateQuantity 1 25 view_1) ! 0) = 25
   \<and> total_cost (orderItems (updateQuantity 1 25 view_1) ! 0) = 25000
   \<and> cost_is_current (orderItems (updateQuantity 1 25 view_1) ! 0)"
proof -
  have q: "(0::int) \<le> 25" by simp
  have i: "(0::nat) < length (orderItems view_1)" by (simp add: view_1_def)
  show ?thesis
    using q i updateQuantity_total_cost [OF q i, of 1]
    by (simp add: updateQuantity_def view_1_def item_a_def cost_is_current_def)
qed

text \<open>
  C9. A quantity edit with a non-negative quantity keeps the number of items; an item whose
  id differs from \<open>itemId\<close> is unchanged; an item whose id is \<open>itemId\<close> changes in its
  \<open>order_quantity\<close> and \<open>total_cost\<close> only, its id, product name, stock fields, unit price,
  reason and priority staying as they were; and outside the item list the edit touches
  nothing but the \<open>hasChanges\<close> flag.
\<close>

theorem updateQuantity_frame:
  assumes "0 \<le> newQuantity" and "i < length (orderItems s)"
  shows "length (orderItems (updateQuantity itemId newQuantity s)) = length (orderItems s)
       \<and> (item_id (orderItems s ! i) \<noteq> itemId \<longrightarrow>
            orderItems (updateQuantity itemId newQuantity s) ! i = orderItems s ! i)
       \<and> (item_id (orderItems s ! i) = itemId \<longrightarrow>
            orderItems (updateQuantity itemId newQuantity s) ! i
              = (orderItems s ! i)\<lparr>order_quantity := newQuantity,
                                     total_cost := unit_price (orderItems s ! i) * newQuantity\<rparr>)
       \<and> item_id (orderItems (updateQuantity itemId newQuantity s) ! i) = item_id (orderItems s ! i)
       \<and> product_name (orderItems (updateQuantity itemId newQuantity s) ! i)
            = product_name (orderItems s ! i)
       \<and> current_stock (orderItems (updateQuantity itemId newQuantity s) ! i)
            = current_stock (orderItems s ! i)
       \<and> safe_stock (orderItems (updateQuantity itemId newQuantity s) ! i)
            = safe_stock (orderItems s ! i)
       \<and> unit_price (orderItems (updateQuantity itemId newQuantity s) ! i)
            = unit_price (orderItems s ! i)
       \<and> reason (orderItems (updateQuantity itemId newQuantity s) ! i) = reason (orderItems s ! i)
       \<and> priority (orderItems (updateQuantity itemId newQuantity s) ! i)
            = priority (orderItems s ! i)
       \<and> updateQuantity itemId newQuantity s
            = s\<lparr>orderItems := orderItems (updateQuantity itemId newQuantity s),
                 hasChanges := True\<rparr>"
  using assms by (simp add: updateQuantity_nth updateQuantity_length) (simp add: updateQuantity_def)

theorem updateQuantity_frame_witness:
  "(0::int) \<le> 25 \<and> (1::nat) < length (orderItems view_1)
   \<and> orderItems (updateQuantity 1 25 view_1) ! 1 = item_b
   \<and> orderItems (updateQuantity 2 25 view_1) ! 1
        = item_b\<lparr>order_quantity := 25, total_cost := 12500\<rparr>
   \<and> orders (updateQuantity 2 25 view_1) = [order_1]"
proof -
  have q: "(0::int) \<le> 25" by simp
  have i: "(1::nat) < length (orderItems view_1)" by (simp add: view_1_def)
  show ?thesis
    using q i updateQuantity_frame [OF q i, of 1] updateQuantity_frame [OF q i, of 2]
    by (simp add: updateQuantity_def view_1_def item_a_def item_b_def)
qed

subsection \<open>Shortfall and totals\<close>

text \<open>
  C3. The shortfall shown for an item is \<open>max 0 (safe_stock - current_stock)\<close>; it is never
  negative; an item is flagged exactly when its shortfall is greater than 0, which is
  exactly when its current stock is below its safe stock; so an item with shortfall 0 is not
  flagged.
\<close>

theorem shortfall_flagged:
  "shortfall item = max 0 (safe_stock item - current_stock item)
   \<and> 0 \<le> shortfall item
   \<and> (flagged item \<longleftrightarrow> 0 < shortfall item)
   \<and> (flagged item \<longleftrightarrow> current_stock item < safe_stock item)
   \<and> (shortfall item = 0 \<longrightarrow> \<not> flagged item)"
  by (auto simp add: shortfall_def flagged_def)

theorem shortfall_flagged_witness:
  "shortfall item_c = 0 \<and> \<not> flagged item_c \<and> shortfall item_b = 5 \<and> flagged item_b"
  using shortfall_flagged [of item_c] shortfall_flagged [of item_b]
  by (simp add: shortfall_def item_c_def item_b_def)

lemma reduce_total_cost:
  "foldl (\<lambda>sum item. sum + total_cost item) start its = start + sum_list (map total_cost its)"
  by (induction its arbitrary: start) simp_all

text \<open>
  C6, as stated, fails after a quantity edit. The edit rewrites the items only: the
  \<open>total_items\<close> and \<open>total_cost\<close> fields of the recommendation's entry in \<open>orders\<close> stay as
  the server sent them. Recommendation 1 has the total cost 22500 in its entry, which is
  the sum of its two items; after the quantity of item 1 is set to 25 the items sum to
  27500 and the entry still says 22500.
\<close>

theorem totals_counterexample:
  "selectedOrder view_1 = Some order_1
   \<and> rec_total_cost order_1 = 22500
   \<and> sum_list (map total_cost (orderItems view_1)) = 22500
   \<and> selectedOrder (updateQuantity 1 25 view_1) = Some order_1
   \<and> sum_list (map total_cost (orderItems (updateQuantity 1 25 view_1))) = 27500"
  by (simp add: selectedOrder_def updateQuantity_def view_1_def order_1_def item_a_def item_b_def)

lemma updateQuantity_total:
  "0 \<le> newQuantity \<Longrightarrow>
   sum_list (map total_cost (orderItems (updateQuantity itemId newQuantity s)))
     = sum_list (map (\<lambda>item. if item_id item = itemId then unit_price item * newQuantity
                             else total_cost item)
                     (orderItems s))"
proof -
  assume "0 \<le> newQuantity"
  then have "map total_cost (orderItems (updateQuantity itemId newQuantity s))
               = map (\<lambda>item. if item_id item = itemId then unit_price item * newQuantity
                              else total_cost item)
                     (orderItems s)"
    by (simp add: updateQuantity_def)
  then show ?thesis by simp
qed

text \<open>
  C6, amended. The totals the view derives from the items of the selected recommendation
  agree with the items: the count shown is the number of items and \<open>totalCost\<close> is the sum of
  the items' \<open>total_cost\<close> values. After a quantity edit with a non-negative quantity the
  count is the same and \<open>totalCost\<close> is the sum in which every item with the edited id counts
  with its unit price times the new quantity and every other item with its cost. The edit
  leaves the entries of \<open>orders\<close>, and so the selected entry's \<open>total_items\<close> and
  \<open>total_cost\<close>, as they were; they are what the server sent at the last \<open>loadOrders\<close>.
\<close>

theorem totals_amended:
  "totalCost s = sum_list (map total_cost (orderItems s))
   \<and> shown_item_count s = int (length (orderItems s))
   \<and> (0 \<le> newQuantity \<longrightarrow>
         totalCost (updateQuantity itemId newQuantity s)
           = sum_list (map (\<lambda>item. if item_id item = itemId then unit_price item * newQuantity
                                   else total_cost item)
                           (orderItems s)))
   \<and> shown_item_count (updateQuantity itemId newQuantity s) = shown_item_count s
   \<and> orders (updateQuantity itemId newQuantity s) = orders s
   \<and> selectedOrder (updateQuantity itemId newQuantity s) = selectedOrder s
   \<and> orders (loadOrders (Payload (Some sent_orders)) s) = sent_orders"
proof -
  have derived: "totalCost s = sum_list (map total_cost (orderItems s))"
    by (simp add: totalCost_def reduce_total_cost)
  have count: "shown_item_count s = int (length (orderItems s))"
    by (simp add: shown_item_count_def)
  have edited: "0 \<le> newQuantity \<longrightarrow>
         totalCost (updateQuantity itemId newQuantity s)
           = sum_list (map (\<lambda>item. if item_id item = itemId then unit_price item * newQuantity
                                   else total_cost item)
                           (orderItems s))"
    by (simp add: totalCost_def reduce_total_cost updateQuantity_total)
  have same_count: "shown_item_count (updateQuantity itemId newQuantity s) = shown_item_count s"
    by (simp add: shown_item_count_def updateQuantity_length)
  have entries: "orders (updateQuantity itemId newQuantity s) = orders s"
    by (simp add: updateQuantity_def)
  have selected: "selectedOrder (updateQuantity itemId newQuantity s) = selectedOrder s"
    by (simp add: selectedOrder_def updateQuantity_def)
  have reload: "orders (loadOrders (Payload (Some sent_orders)) s) = sent_orders"
    by (simp add: loadOrders_def or_empty_def)
  from derived count edited same_count entries selected reload show ?thesis by blast
qed

theorem totals_amended_witness:
  "(0::int) \<le> 25
   \<and> totalCost view_1 = 22500 \<and> shown_item_count view_1 = 2
   \<and> totalCost (updateQuantity 1 25 view_1) = 27500
   \<and> shown_item_count (updateQuantity 1 25 view_1) = 2
   \<and> map rec_total_cost (orders (updateQuantity 1 25 view_1)) = [22500]"
  using totals_amended [of view_1 25 1 "[]"]
  by (simp add: shown_item_count_def view_1_def order_1_def item_a_def item_b_def)

subsection \<open>Invalid quantities\<close>

lemma updateQuantity_effects:
  "sent (updateQuantity itemId newQuantity s) = sent s
   \<and> notices (updateQuantity itemId newQuantity s) = notices s"
  by (simp add: updateQuantity_def)

lemma updateQuantity_zero:
  "updateQuantity itemId 0 s
     = s\<lparr>orderItems := map (\<lambda>item. if item_id item = itemId
                                     then item\<lparr>order_quantity := 0, total_cost := 0\<rparr>
                                     else item)
                             (orderItems s),
          hasChanges := True\<rparr>"
  by (simp add: updateQuantity_def)

lemma parseInt_abc: "parseInt (code_units ''abc'') = NaN"
  by (simp add: parseInt_def parse_digits_def digit_value_def is_white_space_def code_units_def)

lemma parseInt_empty: "parseInt [] = NaN"
  by (simp add: parseInt_def parse_digits_def)

lemma round_to_double_small: "n < 9007199254740992 \<Longrightarrow> round_to_double n = Some n"
  by (simp add: round_to_double_def)

lemma parseInt_minus_5: "parseInt (code_units ''-5'') = Finite (- 5)"
  by (simp add: parseInt_def parse_digits_def digit_value_def is_white_space_def code_units_def
        round_to_double_small)

lemma parseInt_25: "parseInt (code_units ''25'') = Finite 25"
  by (simp add: parseInt_def parse_digits_def digit_value_def is_white_space_def code_units_def
        round_to_double_small)

text \<open>
  C4, as stated, fails for text that is not a number: \<open>parseInt\<close> gives \<open>NaN\<close>, the handler
  of the input field replaces it by 0 and the edit is applied with quantity 0. So it is for
  the text \<open>abc\<close> and for the empty text, which is what a field of type \<open>number\<close> reports
  when its content is not a number: item A, ordered 20 times at a cost of 20000, is left
  with quantity 0 and cost 0, and no notice is shown.
\<close>

theorem invalid_quantity_counterexample:
  "parseInt (code_units ''abc'') = NaN
   \<and> order_quantity (orderItems view_1 ! 0) = 20
   \<and> total_cost (orderItems view_1 ! 0) = 20000
   \<and> onQuantityChange item_a (code_units ''abc'') view_1
        = Some (view_1\<lparr>orderItems := [item_a\<lparr>order_quantity := 0, total_cost := 0\<rparr>, item_b],
                      hasChanges := True\<rparr>)
   \<and> notices view_1 = []
   \<and> parseInt [] = NaN
   \<and> onQuantityChange item_a [] view_1
        = Some (view_1\<lparr>orderItems := [item_a\<lparr>order_quantity := 0, total_cost := 0\<rparr>, item_b],
                      hasChanges := True\<rparr>)"
  by (simp add: onQuantityChange_def updateQuantity_number_def or_zero_def parseInt_abc
        parseInt_empty updateQuantity_zero)
     (simp add: view_1_def item_a_def item_b_def)

text \<open>
  C4, amended. A negative quantity is ignored: \<open>updateQuantity\<close> returns the state as it
  was, items and \<open>hasChanges\<close> included, and so does the input field's handler for text
  that \<open>parseInt\<close> reads as a negative number. Text that \<open>parseInt\<close> cannot read is not
  rejected: it is applied as the quantity 0, so every item with the id of the row gets
  \<open>order_quantity\<close> 0 and \<open>total_cost\<close> 0, the other items stay, and \<open>hasChanges\<close> is set. No
  edit shows a notice or sends a request, whatever its input.
\<close>

theorem invalid_quantity_amended:
  "(newQuantity < 0 \<longrightarrow> updateQuantity itemId newQuantity s = s)
   \<and> (parseInt target_value = Finite n \<and> n < 0 \<longrightarrow>
         onQuantityChange item target_value s = Some s)
   \<and> (parseInt target_value = MinusInfinity \<longrightarrow>
         onQuantityChange item target_value s = Some s)
   \<and> (parseInt target_value = NaN \<longrightarrow>
         onQuantityChange item target_value s
           = Some (s\<lparr>orderItems :=
                        map (\<lambda>other. if item_id other = item_id item
                                      then other\<lparr>order_quantity := 0, total_cost := 0\<rparr>
                                      else other)
                            (orderItems s),
                      hasChanges := True\<rparr>))
   \<and> (parseInt target_value = NaN \<and> i < length (orderItems s)
        \<and> item_id (orderItems s ! i) = item_id item \<longrightarrow>
         map_option (\<lambda>s'. order_quantity (orderItems s' ! i))
           (onQuantityChange item target_value s) = Some 0
         \<and> map_option (\<lambda>s'. total_cost (orderItems s' ! i))
             (onQuantityChange item target_value s) = Some 0
         \<and> map_option hasChanges (onQuantityChange item target_value s) = Some True)
   \<and> (\<forall>s'. onQuantityChange item target_value s = Some s' \<longrightarrow>
         notices s' = notices s \<and> sent s' = sent s)
   \<and> notices (updateQuantity itemId newQuantity s) = notices s
   \<and> sent (updateQuantity itemId newQuantity s) = sent s"
proof -
  have negative: "newQuantity < 0 \<longrightarrow> updateQuantity itemId newQuantity s = s"
    by (simp add: updateQuantity_def)
  have read_negative: "parseInt target_value = Finite n \<and> n < 0 \<longrightarrow>
         onQuantityChange item target_value s = Some s"
    by (simp add: onQuantityChange_def updateQuantity_number_def or_zero_def updateQuantity_def)
  have read_minus_infinity: "parseInt target_value = MinusInfinity \<longrightarrow>
         onQuantityChange item target_value s = Some s"
    by (simp add: onQuantityChange_def updateQuantity_number_def or_zero_def)
  have unread: "parseInt target_value = NaN \<longrightarrow>
         onQuantityChange item target_value s
           = Some (s\<lparr>orderItems :=
                        map (\<lambda>other. if item_id other = item_id item
                                      then other\<lparr>order_quantity := 0, total_cost := 0\<rparr>
                                      else other)
                            (orderItems s),
                      hasChanges := True\<rparr>)"
    by (simp add: onQuantityChange_def updateQuantity_number_def or_zero_def updateQuantity_zero)
  have effect: "parseInt target_value = NaN \<and> i < length (orderItems s)
        \<and> item_id (orderItems s ! i) = item_id item \<longrightarrow>
         map_option (\<lambda>s'. order_quantity (orderItems s' ! i))
           (onQuantityChange item target_value s) = Some 0
         \<and> map_option (\<lambda>s'. total_cost (orderItems s' ! i))
             (onQuantityChange item target_value s) = Some 0
         \<and> map_option hasChanges (onQuantityChange item target_value s) = Some True"
    using unread by simp
  have quiet: "\<forall>s'. onQuantityChange item target_value s = Some s' \<longrightarrow>
         notices s' = notices s \<and> sent s' = sent s"
    by (auto simp add: onQuantityChange_def updateQuantity_number_def updateQuantity_effects
          split: js_number.splits)
  have e1: "notices (updateQuantity itemId newQuantity s) = notices s"
    and e2: "sent (updateQuantity itemId newQuantity s) = sent s"
    by (simp_all add: updateQuantity_effects)
  from negative read_negative read_minus_infinity unread effect quiet e1 e2
  show ?thesis by (intro conjI)
qed

theorem invalid_quantity_amended_witness:
  "(- 5 :: int) < 0 \<and> updateQuantity 1 (- 5) view_1 = view_1
   \<and> parseInt (code_units ''-5'') = Finite (- 5)
   \<and> onQuantityChange item_a (code_units ''-5'') view_1 = Some view_1
   \<and> parseInt [] = NaN
   \<and> (0::nat) < length (orderItems view_1)
   \<and> item_id (orderItems view_1 ! 0) = item_id item_a
   \<and> map_option (\<lambda>s'. order_quantity (orderItems s' ! 0)) (onQuantityChange item_a [] view_1)
        = Some 0
   \<and> map_option (\<lambda>s'. total_cost (orderItems s' ! 0)) (onQuantityChange item_a [] view_1)
        = Some 0"
proof -
  note negative_text = invalid_quantity_amended [of "- 5" 1 view_1 "code_units ''-5''" "- 5" item_a 0]
  note unread_text = invalid_quantity_amended [of "- 5" 1 view_1 "[]" 0 item_a 0]
  have i: "(0::nat) < length (orderItems view_1)"
    and same_id: "item_id (orderItems view_1 ! 0) = item_id item_a"
    by (simp_all add: view_1_def)
  have ignored: "updateQuantity 1 (- 5) view_1 = view_1"
    by (rule mp [OF conjunct1 [OF negative_text]]) simp
  have ignored_text: "onQuantityChange item_a (code_units ''-5'') view_1 = Some view_1"
    by (rule mp [OF conjunct1 [OF conjunct2 [OF negative_text]]]) (simp add: parseInt_minus_5)
  have applied:
    "map_option (\<lambda>s'. order_quantity (orderItems s' ! 0)) (onQuantityChange item_a [] view_1)
       = Some 0
     \<and> map_option (\<lambda>s'. total_cost (orderItems s' ! 0)) (onQuantityChange item_a [] view_1)
         = Some 0
     \<and> map_option hasChanges (onQuantityChange item_a [] view_1) = Some True"
    by (rule mp [OF conjunct1 [OF conjunct2 [OF conjunct2 [OF conjunct2 [OF conjunct2
          [OF unread_text]]]]]])
       (simp add: parseInt_empty view_1_def)
  from applied have quantity:
    "map_option (\<lambda>s'. order_quantity (orderItems s' ! 0)) (onQuantityChange item_a [] view_1)
       = Some 0"
    and cost:
    "map_option (\<lambda>s'. total_cost (orderItems s' ! 0)) (onQuantityChange item_a [] view_1)
       = Some 0"
    by blast+
  have five: "(- 5 :: int) < 0" by simp
  from five ignored parseInt_minus_5 ignored_text parseInt_empty i same_id quantity cost
  show ?thesis by (intro conjI)
qed

subsection \<open>The guard on execution\<close>

text \<open>
  The guard the code has: while \<open>hasChanges\<close> holds, \<open>handleExecuteClick\<close> shows the notice
  to save first and changes nothing else, and the execute button is disabled; without
  changes the click opens the confirmation. An edit with a non-negative quantity sets the
  flag, and \<open>loadOrderItems\<close> resets it.
\<close>

lemma handleExecuteClick_guard:
  "(hasChanges s \<longrightarrow> handleExecuteClick s = s\<lparr>notices := notices s @ [SaveChangesFirst]\<rparr>)
   \<and> (execute_button_disabled s \<longleftrightarrow> hasChanges s)
   \<and> (\<not> hasChanges s \<longrightarrow> handleExecuteClick s = s\<lparr>showExecuteModal := True\<rparr>)
   \<and> (0 \<le> newQuantity \<longrightarrow> hasChanges (updateQuantity itemId newQuantity s))
   \<and> \<not> hasChanges (loadOrderItems orderId answer s)"
  by (simp add: handleExecuteClick_def execute_button_disabled_def updateQuantity_def
        loadOrderItems_def Let_def split: response.split)

text \<open>
  C10. The claim is what the guard is for, and the code misses it: the guard stands at
  the click that opens the confirmation, and \<open>executeOrder\<close>, the handler of the
  confirmation's own button, has none. With recommendation 1 selected and nothing to save,
  the click opens the confirmation; the rows of the table stay rendered under it, and
  typing 25 into the quantity field of item 1 sets \<open>hasChanges\<close> while the confirmation
  stays open. A click on the execute button of the page would now be refused with the notice to
  save first, but the button of the confirmation calls \<open>executeOrder\<close>, which posts the
  execute request: the only requests sent are that one and the reload that follows its
  success, and no quantity was saved.
\<close>

theorem execute_with_unsaved_edit:
  "\<not> hasChanges view_1
   \<and> confirmation_shown (handleExecuteClick view_1)
   \<and> quantity_controls_shown (handleExecuteClick view_1)
   \<and> onQuantityChange item_a (code_units ''25'') (handleExecuteClick view_1)
        = Some (updateQuantity 1 25 (handleExecuteClick view_1))
   \<and> hasChanges (updateQuantity 1 25 (handleExecuteClick view_1))
   \<and> order_quantity (orderItems (updateQuantity 1 25 (handleExecuteClick view_1)) ! 0) = 25
   \<and> confirmation_shown (updateQuantity 1 25 (handleExecuteClick view_1))
   \<and> notices (handleExecuteClick (updateQuantity 1 25 (handleExecuteClick view_1)))
        = [SaveChangesFirst]
   \<and> sent (executeOrder (Payload ()) (Payload (Some []))
              (updateQuantity 1 25 (handleExecuteClick view_1)))
        = [PostExecute 1, GetPending]
   \<and> notices (executeOrder (Payload ()) (Payload (Some []))
                 (updateQuantity 1 25 (handleExecuteClick view_1)))
        = [ExecuteSucceeded 1]"
  by (simp add: onQuantityChange_def updateQuantity_number_def or_zero_def parseInt_25
        executeOrder_def loadOrders_def or_empty_def handleExecuteClick_def updateQuantity_def
        confirmation_shown_def quantity_controls_shown_def selectedOrder_def
        view_1_def order_1_def item_a_def)

subsection \<open>Priority\<close>

lemma half_of_safe_stock:
  "((50 / 100) * (of_int safe :: rat) \<le> of_int x) = (safe \<le> 2 * x)"
proof -
  have "((50 / 100) * (of_int safe :: rat) \<le> of_int x) = ((of_int safe :: rat) \<le> of_int (2 * x))"
    by (simp add: field_simps)
  also have "\<dots> = (safe \<le> 2 * x)"
    by (simp only: of_int_le_iff)
  finally show ?thesis .
qed

text \<open>
  C5. For a flagged product with a stock that is not negative, the priority is a function of
  its current and safe stock: high exactly when the current stock is 0; medium exactly when
  the current stock is positive and the shortfall is at least half of the safe stock; low
  exactly in the remaining case. Stock 0 gives high, stock 4 of 10 gives medium, stock 8 of
  10 gives low.
\<close>

theorem assign_priority_cases:
  assumes "0 \<le> current_stock item" and "flagged item"
  shows "(assign_priority (current_stock item) (safe_stock item) = high
            \<longleftrightarrow> current_stock item = 0)
       \<and> (assign_priority (current_stock item) (safe_stock item) = medium
            \<longleftrightarrow> 0 < current_stock item \<and> safe_stock item \<le> 2 * shortfall item)
       \<and> (assign_priority (current_stock item) (safe_stock item) = low
            \<longleftrightarrow> 0 < current_stock item \<and> 2 * shortfall item < safe_stock item)
       \<and> assign_priority 0 (safe_stock item) = high
       \<and> assign_priority 4 10 = medium
       \<and> assign_priority 8 10 = low"
  using assms unfolding assign_priority_def half_of_safe_stock flagged_def shortfall_def
  by auto

theorem assign_priority_cases_witness:
  "0 \<le> current_stock item_b \<and> flagged item_b
   \<and> assign_priority (current_stock item_b) (safe_stock item_b) = low
   \<and> 0 \<le> current_stock item_a \<and> flagged item_a
   \<and> assign_priority (current_stock item_a) (safe_stock item_a) = high"
proof -
  have b: "0 \<le> current_stock item_b" "flagged item_b"
    by (simp_all add: item_b_def flagged_def shortfall_def)
  have a: "0 \<le> current_stock item_a" "flagged item_a"
    by (simp_all add: item_a_def flagged_def shortfall_def)
  show ?thesis
    using a b assign_priority_cases [OF b] assign_priority_cases [OF a]
    by (simp add: item_a_def item_b_def shortfall_def)
qed

subsection \<open>Execution\<close>

lemma foldl_receive_item_Some:
  "ledger pid = Some p \<Longrightarrow>
   foldl receive_item ledger its pid
     = Some (p\<lparr>p_current_stock := p_current_stock p + ordered_of pid its\<rparr>)"
proof (induction its arbitrary: ledger p)
  case Nil
  then show ?case by (simp add: ordered_of_def)
next
  case (Cons item rest)
  show ?case
  proof (cases "ri_product_id item = pid")
    case True
    then have "receive_item ledger item pid
                 = Some (p\<lparr>p_current_stock := p_current_stock p + ri_order_quantity item\<rparr>)"
      using Cons.prems by (simp add: receive_item_def)
    with Cons.IH [of "receive_item ledger item"] True show ?thesis
      by (simp add: ordered_of_def add.assoc)
  next
    case False
    then have "receive_item ledger item pid = Some p"
      using Cons.prems by (simp add: receive_item_def split: option.split)
    with Cons.IH [of "receive_item ledger item"] False show ?thesis
      by (simp add: ordered_of_def)
  qed
qed

lemma foldl_receive_item_None:
  "ledger pid = None \<Longrightarrow> foldl receive_item ledger its pid = None"
proof (induction its arbitrary: ledger)
  case Nil
  then show ?case by simp
next
  case (Cons item rest)
  have "receive_item ledger item pid = None"
    using Cons.prems by (auto simp add: receive_item_def split: option.split)
  with Cons.IH [of "receive_item ledger item"] show ?case by simp
qed

lemma execute_pending:
  assumes "recommendations st rid = Some r" and "r_status r = pending"
    and "\<forall>item \<in> set (r_items r). products st (ri_product_id item) \<noteq> None"
  shows "execute now rid st
           = Inr (st\<lparr>products := foldl receive_item (products st) (r_items r),
                      recommendations :=
                        (recommendations st)(rid \<mapsto>
                           r\<lparr>r_status := executed, r_executed_at := Some now\<rparr>)\<rparr>)"
  using assms by (simp add: execute_def list_ex_iff)

lemma execute_not_pending:
  assumes "recommendations st rid = Some r" and "r_status r \<noteq> pending"
  shows "execute now rid st = Inl InvalidState"
  using assms by (simp add: execute_def)

text \<open>
  C2. On a pending recommendation whose items all name existing products, the first
  \<open>execute\<close> succeeds: the status becomes executed, \<open>executed_at\<close> is set, and the stock of
  every product grows by the quantity the items order of it (products no item names keep
  their stock, and no product appears or disappears). A second \<open>execute\<close> on the same id then
  fails with \<open>InvalidState\<close> and leaves the store as the first call left it, so after the
  two calls the stock has changed by the item quantities once.
\<close>

theorem execute_exactly_once:
  assumes "recommendations st rid = Some r" and "r_status r = pending"
    and "\<forall>item \<in> set (r_items r). products st (ri_product_id item) \<noteq> None"
  shows "execute t1 rid st = Inr (after_call (execute t1 rid) st)
       \<and> recommendations (after_call (execute t1 rid) st) rid
            = Some (r\<lparr>r_status := executed, r_executed_at := Some t1\<rparr>)
       \<and> (\<forall>pid p. products st pid = Some p \<longrightarrow>
              products (after_call (execute t1 rid) st) pid
                = Some (p\<lparr>p_current_stock := p_current_stock p + ordered_of pid (r_items r)\<rparr>))
       \<and> (\<forall>pid. products st pid = None \<longrightarrow>
              products (after_call (execute t1 rid) st) pid = None)
       \<and> execute t2 rid (after_call (execute t1 rid) st) = Inl InvalidState
       \<and> after_call (execute t2 rid) (after_call (execute t1 rid) st)
            = after_call (execute t1 rid) st"
proof -
  let ?st1 = "st\<lparr>products := foldl receive_item (products st) (r_items r),
                  recommendations :=
                    (recommendations st)(rid \<mapsto>
                       r\<lparr>r_status := executed, r_executed_at := Some t1\<rparr>)\<rparr>"
  have first: "execute t1 rid st = Inr ?st1"
    using assms by (rule execute_pending)
  then have after: "after_call (execute t1 rid) st = ?st1"
    by (simp add: after_call_def)
  have status: "recommendations ?st1 rid = Some (r\<lparr>r_status := executed, r_executed_at := Some t1\<rparr>)"
    by simp
  have stock: "\<forall>pid p. products st pid = Some p \<longrightarrow>
      products ?st1 pid = Some (p\<lparr>p_current_stock := p_current_stock p + ordered_of pid (r_items r)\<rparr>)"
    by (simp add: foldl_receive_item_Some)
  have absent: "\<forall>pid. products st pid = None \<longrightarrow> products ?st1 pid = None"
    by (simp add: foldl_receive_item_None)
  have second: "execute t2 rid ?st1 = Inl InvalidState"
    by (rule execute_not_pending [OF status]) simp
  then have kept: "after_call (execute t2 rid) ?st1 = ?st1"
    by (simp add: after_call_def)
  from first status stock absent second kept show ?thesis
    unfolding after by blast
qed

theorem execute_exactly_once_witness:
  "recommendations store_1 1 = Some recommendation_1 \<and> r_status recommendation_1 = pending
   \<and> list_all (\<lambda>item. products store_1 (ri_product_id item) \<noteq> None) (r_items recommendation_1)
   \<and> map_option p_current_stock (products store_1 2) = Some 15
   \<and> map_option p_current_stock (products (after_call (execute 7 1) store_1) 2) = Some 20
   \<and> execute 8 1 (after_call (execute 7 1) store_1) = Inl InvalidState
   \<and> map_option p_current_stock
         (products (after_call (execute 8 1) (after_call (execute 7 1) store_1)) 2) = Some 20"
proof -
  have r: "recommendations store_1 1 = Some recommendation_1"
    by (simp add: store_1_def)
  have p: "r_status recommendation_1 = pending"
    by (simp add: recommendation_1_def)
  have e: "\<forall>item \<in> set (r_items recommendation_1). products store_1 (ri_product_id item) \<noteq> None"
    by (simp add: store_1_def recommendation_1_def)
  have b: "products store_1 2 = Some product_b"
    by (simp add: store_1_def)
  have o: "ordered_of 2 (r_items recommendation_1) = 5"
    by (simp add: ordered_of_def recommendation_1_def)
  show ?thesis
    using r p e b o execute_exactly_once [OF r p e, of 7 8]
    by (simp add: product_b_def list_all_iff)
qed

subsection \<open>Sales delta\<close>

text \<open>
  C8. For every date window and sales history the day-over-day delta is a value, never a
  division error: it is 0 when the prior day has zero sales, and otherwise the change from
  the prior day to the most recent day, divided by the prior day's sales, times 100.
\<close>

theorem day_over_day_delta_total:
  "day_over_day_delta contribution (first_day, last_day) history
     = Inr (if day_sales contribution history (last_day - 1) = 0 then 0
            else (day_sales contribution history last_day
                    - day_sales contribution history (last_day - 1))
                 / day_sales contribution history (last_day - 1) * 100)
   \<and> (day_sales contribution history (last_day - 1) = 0 \<longrightarrow>
         day_over_day_delta contribution (first_day, last_day) history = Inr 0)
   \<and> day_over_day_delta contribution (first_day, last_day) history \<noteq> Inl ZeroDivisionError"
  by (simp add: day_over_day_delta_def percent_change_def divide_def)

theorem day_over_day_delta_total_witness:
  "day_sales revenue history_1 9 = 0
   \<and> day_over_day_delta revenue (4, 10) history_1 = Inr 0
   \<and> day_sales revenue history_1 10 = 100
   \<and> day_over_day_delta revenue (5, 11) history_1 = Inr 50"
  using day_over_day_delta_total [of revenue 4 10 history_1]
        day_over_day_delta_total [of revenue 5 11 history_1]
  by (simp add: day_sales_def revenue_def history_1_def)

end
